theory Spec2Isabelle
  imports Main
begin

section \<open>Values, errors and effects\<close>

text \<open>
  The Python values that travel through \<^verbatim>\<open>chainlit/emitter.py\<close> and
  \<^verbatim>\<open>chainlit/lc/agent.py\<close>: payloads are JSON-like, a dictionary is an
  association list read from the front, and \<open>VObj\<close> is a reference to an instance of a
  class that defines neither \<^verbatim>\<open>__bool__\<close> nor \<^verbatim>\<open>__len__\<close>
  (a \<^verbatim>\<open>ChainlitEmitter\<close>, for instance), which Python always takes as true.
\<close>

datatype pyval =
    VNone
  | VBool bool
  | VInt int
  | VStr string
  | VList "pyval list"
  | VDict "(string \<times> pyval) list"
  | VObj nat

text \<open>Python's truth test, as \<^verbatim>\<open>if candidate:\<close> and \<^verbatim>\<open>and\<close> use it.\<close>

fun truthy :: "pyval \<Rightarrow> bool" where
  "truthy VNone = False"
| "truthy (VBool b) = b"
| "truthy (VInt i) = (i \<noteq> 0)"
| "truthy (VStr s) = (s \<noteq> [])"
| "truthy (VList xs) = (xs \<noteq> [])"
| "truthy (VDict kvs) = (kvs \<noteq> [])"
| "truthy (VObj r) = True"

text \<open>
  Every exception of the two modules is a value. \<open>TimeoutError\<close> is
  \<^verbatim>\<open>socketio.exceptions.TimeoutError\<close>, the only class that
  \<^verbatim>\<open>send_ask_user\<close> catches.
\<close>

datatype error =
    ValueError string
  | TimeoutError
  | KeyError string
  | IndexError
  | TypeError
  | AttributeError
  | OtherError string

text \<open>\<^verbatim>\<open>res["author"]\<close>: a dictionary raises KeyError on a missing key, any other
  value of the model cannot be indexed by a string.\<close>

fun getitem :: "pyval \<Rightarrow> string \<Rightarrow> error + pyval" where
  "getitem (VDict kvs) k = (case map_of kvs k of None \<Rightarrow> Inl (KeyError k) | Some v \<Rightarrow> Inr v)"
| "getitem v k = Inl TypeError"

text \<open>
  What leaves the process is recorded in a trace, in the order of the calls: an event handed
  to the session's \<^verbatim>\<open>emit\<close>, a prompt handed to \<^verbatim>\<open>ask_user\<close>, a record
  handed to the persistence client's \<^verbatim>\<open>create_message\<close>. A call is recorded
  whether the collaborator then returns or raises.
\<close>

datatype effect =
    Emit string pyval
  | Ask pyval int
  | CreateMessage pyval

type_synonym trace = "effect list"

fun is_emit :: "string \<Rightarrow> effect \<Rightarrow> bool" where
  "is_emit name (Emit ev payload) = (ev = name)"
| "is_emit name (Ask payload t) = False"
| "is_emit name (CreateMessage m) = False"

definition count_event :: "string \<Rightarrow> trace \<Rightarrow> nat" where
  "count_event name tr = length (filter (is_emit name) tr)"

type_synonym 'a outcome = "(error + 'a) \<times> trace"

section \<open>The session and the emitter\<close>

text \<open>
  A session is a mapping from property names to capabilities. The collaborators are
  outside the repository, so each is a function giving the outcome of a call: a returned
  value or a raised error. \<open>CValue\<close> is any stored value that is not one of the three
  collaborators (\<^verbatim>\<open>None\<close> for a session without a cloud client).
\<close>

type_synonym emit_fn = "string \<Rightarrow> pyval \<Rightarrow> error + pyval"
type_synonym ask_fn = "pyval \<Rightarrow> int \<Rightarrow> error + pyval"
type_synonym create_message_fn = "pyval \<Rightarrow> error + pyval"

datatype capability =
    CEmit emit_fn
  | CAsk ask_fn
  | CClient create_message_fn
  | CValue pyval

type_synonym session = "string \<rightharpoonup> capability"

fun truthy_cap :: "capability \<Rightarrow> bool" where
  "truthy_cap (CValue v) = truthy v"
| "truthy_cap c = True"

text \<open>
  The emitter holds the session reference. \<open>session = None\<close> is an instance on which the
  attribute was never set, the case \<^verbatim>\<open>hasattr(self, "session")\<close> guards against;
  \<^verbatim>\<open>__init__\<close> always sets it.
\<close>

record ChainlitEmitter =
  session :: "session option"

definition init :: "session \<Rightarrow> ChainlitEmitter" where
  "init s = \<lparr>session = Some s\<rparr>"

definition missing_property :: "string \<Rightarrow> error" where
  "missing_property property_name =
     ValueError (''Session does not have property '' @ [CHR 0x27] @ property_name @ [CHR 0x27])"

definition get_session_property :: "ChainlitEmitter \<Rightarrow> string \<Rightarrow> bool \<Rightarrow> error + capability" where
  "get_session_property self property_name raise_error =
     (case session self of
        None \<Rightarrow> if raise_error then Inl (missing_property property_name) else Inr (CValue VNone)
      | Some s \<Rightarrow>
          (case s property_name of
             None \<Rightarrow> if raise_error then Inl (missing_property property_name) else Inr (CValue VNone)
           | Some c \<Rightarrow> Inr c))"

definition emit :: "ChainlitEmitter \<Rightarrow> error + capability" where
  "emit self = get_session_property self ''emit'' True"

definition ask_user :: "ChainlitEmitter \<Rightarrow> error + capability" where
  "ask_user self = get_session_property self ''ask_user'' True"

definition client :: "ChainlitEmitter \<Rightarrow> error + capability" where
  "client self = get_session_property self ''client'' False"

text \<open>
  \<^verbatim>\<open>self.emit(event, payload)\<close>: the property is read first, then the stored
  object is called. An object that is not the emit function of the session type is not
  called; the model raises TypeError there.
\<close>

definition call_emit :: "ChainlitEmitter \<Rightarrow> string \<Rightarrow> pyval \<Rightarrow> trace \<Rightarrow> pyval outcome" where
  "call_emit self ev payload tr =
     (case emit self of
        Inl e \<Rightarrow> (Inl e, tr)
      | Inr (CEmit f) \<Rightarrow> (f ev payload, tr @ [Emit ev payload])
      | Inr c \<Rightarrow> (Inl TypeError, tr))"

definition send_message :: "ChainlitEmitter \<Rightarrow> pyval \<Rightarrow> trace \<Rightarrow> pyval outcome" where
  "send_message self msg_dict tr = call_emit self ''new_message'' msg_dict tr"

definition update_message :: "ChainlitEmitter \<Rightarrow> pyval \<Rightarrow> trace \<Rightarrow> pyval outcome" where
  "update_message self msg_dict tr = call_emit self ''update_message'' msg_dict tr"

definition delete_message :: "ChainlitEmitter \<Rightarrow> pyval \<Rightarrow> trace \<Rightarrow> pyval outcome" where
  "delete_message self msg_dict tr = call_emit self ''delete_message'' msg_dict tr"

definition send_ask_timeout :: "ChainlitEmitter \<Rightarrow> trace \<Rightarrow> pyval outcome" where
  "send_ask_timeout self tr = call_emit self ''ask_timeout'' (VDict []) tr"

definition clear_ask :: "ChainlitEmitter \<Rightarrow> trace \<Rightarrow> pyval outcome" where
  "clear_ask self tr = call_emit self ''clear_ask'' (VDict []) tr"

definition update_token_count :: "ChainlitEmitter \<Rightarrow> int \<Rightarrow> trace \<Rightarrow> pyval outcome" where
  "update_token_count self count tr = call_emit self ''token_usage'' (VInt count) tr"

definition task_start :: "ChainlitEmitter \<Rightarrow> trace \<Rightarrow> pyval outcome" where
  "task_start self tr = call_emit self ''task_start'' (VDict []) tr"

definition task_end :: "ChainlitEmitter \<Rightarrow> trace \<Rightarrow> pyval outcome" where
  "task_end self tr = call_emit self ''task_end'' (VDict []) tr"

definition stream_start :: "ChainlitEmitter \<Rightarrow> pyval \<Rightarrow> trace \<Rightarrow> pyval outcome" where
  "stream_start self msg_dict tr = call_emit self ''stream_start'' msg_dict tr"

definition send_token :: "ChainlitEmitter \<Rightarrow> pyval \<Rightarrow> string \<Rightarrow> trace \<Rightarrow> pyval outcome" where
  "send_token self ident token tr =
     call_emit self ''stream_token'' (VDict [(''id'', ident), (''token'', VStr token)]) tr"

text \<open>
  \<^verbatim>\<open>AskSpec\<close> comes from \<^verbatim>\<open>chainlit.types\<close>, which is not among the
  sources: the record keeps the two fields \<^verbatim>\<open>send_ask_user\<close> reads and, as
  \<open>to_dict\<close>, the value its serialisation returns.
\<close>

record AskSpec =
  ask_type :: string
  timeout :: int
  to_dict :: pyval

text \<open>\<^verbatim>\<open>self.ask_user(payload, timeout)\<close>, read and called like \<^verbatim>\<open>self.emit\<close>.\<close>

definition call_ask_user :: "ChainlitEmitter \<Rightarrow> pyval \<Rightarrow> int \<Rightarrow> trace \<Rightarrow> pyval outcome" where
  "call_ask_user self payload t tr =
     (case ask_user self of
        Inl e \<Rightarrow> (Inl e, tr)
      | Inr (CAsk f) \<Rightarrow> (f payload t, tr @ [Ask payload t])
      | Inr c \<Rightarrow> (Inl TypeError, tr))"

text \<open>\<^verbatim>\<open>self.client.create_message(res_msg)\<close>: only a persistence client has the method.\<close>

definition create_message :: "capability \<Rightarrow> pyval \<Rightarrow> trace \<Rightarrow> pyval outcome" where
  "create_message c res_msg tr =
     (case c of
        CClient f \<Rightarrow> (f res_msg, tr @ [CreateMessage res_msg])
      | _ \<Rightarrow> (Inl AttributeError, tr))"

text \<open>
  Lines 84 to 95 of \<^verbatim>\<open>send_ask_user\<close>: with a client and a true response, a text
  prompt's answer is stored; the dictionary display reads \<^verbatim>\<open>res["author"]\<close> before
  \<^verbatim>\<open>res["content"]\<close>. A file prompt, or any other type, stores nothing.
\<close>

definition store_response :: "ChainlitEmitter \<Rightarrow> AskSpec \<Rightarrow> pyval \<Rightarrow> trace \<Rightarrow> pyval outcome" where
  "store_response self spec res tr =
     (case client self of
        Inl e \<Rightarrow> (Inl e, tr)
      | Inr c \<Rightarrow>
          if truthy_cap c \<and> truthy res then
            if ask_type spec = ''text'' then
              (case getitem res ''author'' of
                 Inl e \<Rightarrow> (Inl e, tr)
               | Inr author \<Rightarrow>
                   (case getitem res ''content'' of
                      Inl e \<Rightarrow> (Inl e, tr)
                    | Inr content \<Rightarrow>
                        (case client self of
                           Inl e \<Rightarrow> (Inl e, tr)
                         | Inr c' \<Rightarrow>
                             create_message c'
                               (VDict [(''author'', author), (''authorIsUser'', VBool True),
                                       (''content'', content)]) tr)))
            else (Inr VNone, tr)
          else (Inr VNone, tr))"

text \<open>The body of the \<^verbatim>\<open>try\<close>: the first raise ends it.\<close>

definition try_block :: "ChainlitEmitter \<Rightarrow> pyval \<Rightarrow> AskSpec \<Rightarrow> trace \<Rightarrow> pyval outcome" where
  "try_block self msg_dict spec tr =
     (case call_ask_user self (VDict [(''msg'', msg_dict), (''spec'', to_dict spec)])
             (timeout spec) tr of
        (Inl e, tr1) \<Rightarrow> (Inl e, tr1)
      | (Inr res, tr1) \<Rightarrow>
          (case task_end self tr1 of
             (Inl e, tr2) \<Rightarrow> (Inl e, tr2)
           | (Inr u, tr2) \<Rightarrow>
               (case store_response self spec res tr2 of
                  (Inl e, tr3) \<Rightarrow> (Inl e, tr3)
                | (Inr u', tr3) \<Rightarrow>
                    (case clear_ask self tr3 of
                       (Inl e, tr4) \<Rightarrow> (Inl e, tr4)
                     | (Inr u'', tr4) \<Rightarrow> (Inr res, tr4)))))"

text \<open>
  \<^verbatim>\<open>except TimeoutError as e\<close>: only a timeout enters the handler, whichever
  statement of the body raised it; falling off the handler's end makes the function
  return \<^verbatim>\<open>None\<close>.
\<close>

definition except_timeout :: "ChainlitEmitter \<Rightarrow> bool \<Rightarrow> pyval outcome \<Rightarrow> pyval outcome" where
  "except_timeout self raise_on_timeout body =
     (case body of
        (Inl TimeoutError, tr1) \<Rightarrow>
          (case send_ask_timeout self tr1 of
             (Inl e, tr2) \<Rightarrow> (Inl e, tr2)
           | (Inr u, tr2) \<Rightarrow>
               if raise_on_timeout then (Inl TimeoutError, tr2) else (Inr VNone, tr2))
      | other \<Rightarrow> other)"

text \<open>\<^verbatim>\<open>finally\<close>: \<^verbatim>\<open>task_start\<close> runs after every outcome, and an
  error it raises replaces that outcome.\<close>

definition send_ask_user ::
  "ChainlitEmitter \<Rightarrow> pyval \<Rightarrow> AskSpec \<Rightarrow> bool \<Rightarrow> trace \<Rightarrow> pyval outcome" where
  "send_ask_user self msg_dict spec raise_on_timeout tr =
     (case except_timeout self raise_on_timeout (try_block self msg_dict spec tr) of
        (r, tr1) \<Rightarrow>
          (case task_start self tr1 of
             (Inl e, tr2) \<Rightarrow> (Inl e, tr2)
           | (Inr u, tr2) \<Rightarrow> (r, tr2)))"

section \<open>Current-emitter resolution\<close>

text \<open>
  The argument of \<open>get_emitter\<close> is the list \<^verbatim>\<open>inspect.stack()\<close> returns: the
  frames of the running call chain, the frame of \<^verbatim>\<open>get_emitter\<close> itself first and
  the outermost call last.
\<close>

record frame =
  f_locals :: "string \<rightharpoonup> pyval"

definition dict_get :: "(string \<rightharpoonup> pyval) \<Rightarrow> string \<Rightarrow> pyval" where
  "dict_get d k = (case d k of None \<Rightarrow> VNone | Some v \<Rightarrow> v)"

definition attr :: string where
  "attr = ''__chainlit_emitter__''"

definition candidates :: "frame list \<Rightarrow> pyval list" where
  "candidates stack = map (\<lambda>i. dict_get (f_locals i) attr) stack"

text \<open>The \<^verbatim>\<open>for\<close> loop over the candidates, with the variable \<^verbatim>\<open>emitter\<close>
  as accumulator and the \<^verbatim>\<open>break\<close> at the first true candidate.\<close>

fun scan_candidates :: "pyval \<Rightarrow> pyval list \<Rightarrow> pyval" where
  "scan_candidates emitter [] = emitter"
| "scan_candidates emitter (candidate # rest) =
     (if truthy candidate then candidate else scan_candidates emitter rest)"

definition get_emitter :: "frame list \<Rightarrow> pyval" where
  "get_emitter stack = scan_candidates VNone (candidates stack)"

text \<open>A frame carries the marker when its candidate passes the loop's test.\<close>

definition carries_marker :: "frame \<Rightarrow> bool" where
  "carries_marker fr = truthy (dict_get (f_locals fr) attr)"

text \<open>
  The specification's wording of the search, for comparison with \<open>get_emitter\<close>: the
  frames are visited from the outermost one inwards and each marker found replaces the
  one found before, so that the nearest frame wins.
\<close>

definition spec_outermost_first :: "frame list \<Rightarrow> pyval" where
  "spec_outermost_first stack =
     foldl (\<lambda>found fr. if carries_marker fr then dict_get (f_locals fr) attr else found)
       VNone (rev stack)"

section \<open>The agent adapter\<close>

datatype handler = ChainlitCallbackHandler | AsyncChainlitCallbackHandler

text \<open>
  An agent is any object: \<open>input_keys\<close> and \<open>output_keys\<close> are \<open>None\<close> when the
  attribute does not exist (\<^verbatim>\<open>hasattr\<close> is false). The two entry points are outside
  the repository and give the outcome of a call on an input and a list of callbacks.
\<close>

record agent =
  input_keys :: "string list option"
  output_keys :: "string list option"
  acall :: "pyval \<Rightarrow> handler list \<Rightarrow> error + pyval"
  sync_call :: "pyval \<Rightarrow> handler list \<Rightarrow> error + pyval"

datatype invocation =
    Acall pyval "handler list"
  | SyncCall pyval "handler list"

text \<open>\<^verbatim>\<open>keys[0]\<close> raises IndexError on an empty list.\<close>

fun first_key :: "string list \<Rightarrow> error + string" where
  "first_key [] = Inl IndexError"
| "first_key (k # ks) = Inr k"

text \<open>
  Modelled from the spec: \<^verbatim>\<open>make_async\<close> of \<^verbatim>\<open>chainlit.sync\<close> is not among
  the sources. It runs the synchronous entry point on a non-blocking execution context;
  awaiting it gives the outcome of that entry point.
\<close>

definition make_async :: "(pyval \<Rightarrow> handler list \<Rightarrow> error + pyval) \<Rightarrow> pyval \<Rightarrow> handler list \<Rightarrow> error + pyval" where
  "make_async f = f"

definition invoke_agent :: "agent \<Rightarrow> pyval \<Rightarrow> bool \<Rightarrow> (error + pyval) \<times> invocation list" where
  "invoke_agent ag arg use_async =
     (if use_async
      then (acall ag arg [AsyncChainlitCallbackHandler], [Acall arg [AsyncChainlitCallbackHandler]])
      else (make_async (sync_call ag) arg [ChainlitCallbackHandler],
            [SyncCall arg [ChainlitCallbackHandler]]))"

definition run_langchain_agent ::
  "agent \<Rightarrow> string \<Rightarrow> bool \<Rightarrow> (error + pyval \<times> string option) \<times> invocation list" where
  "run_langchain_agent ag input_str use_async =
     (case (case input_keys ag of
              Some keys \<Rightarrow>
                (case first_key keys of
                   Inl e \<Rightarrow> (Inl e, [])
                 | Inr input_key \<Rightarrow> invoke_agent ag (VDict [(input_key, VStr input_str)]) use_async)
            | None \<Rightarrow> invoke_agent ag (VStr input_str) use_async) of
        (Inl e, calls) \<Rightarrow> (Inl e, calls)
      | (Inr raw_res, calls) \<Rightarrow>
          (case output_keys ag of
             Some keys \<Rightarrow>
               (case first_key keys of
                  Inl e \<Rightarrow> (Inl e, calls)
                | Inr output_key \<Rightarrow> (Inr (raw_res, Some output_key), calls))
           | None \<Rightarrow> (Inr (raw_res, None), calls)))"

section \<open>Sample sessions, stacks and agents\<close>

text \<open>
  Concrete collaborators on which the theorems below are instantiated: an emit function
  that accepts every event, a prompt that is answered and one that times out, a
  persistence client that stores and one that fails.
\<close>

definition accepting_emit :: emit_fn where
  "accepting_emit ev payload = Inr VNone"

definition answering_ask :: ask_fn where
  "answering_ask payload t = Inr (VDict [(''author'', VStr ''User''), (''content'', VStr ''hello'')])"

definition silent_ask :: ask_fn where
  "silent_ask payload t = Inl TimeoutError"

definition working_client :: create_message_fn where
  "working_client res_msg = Inr VNone"

definition failing_client :: create_message_fn where
  "failing_client res_msg = Inl (OtherError ''storage unavailable'')"

definition full_session :: session where
  "full_session = [''emit'' \<mapsto> CEmit accepting_emit, ''ask_user'' \<mapsto> CAsk answering_ask,
                   ''client'' \<mapsto> CClient working_client]"

definition timeout_session :: session where
  "timeout_session = [''emit'' \<mapsto> CEmit accepting_emit, ''ask_user'' \<mapsto> CAsk silent_ask]"

definition failing_store_session :: session where
  "failing_store_session = [''emit'' \<mapsto> CEmit accepting_emit, ''ask_user'' \<mapsto> CAsk answering_ask,
                   ''client'' \<mapsto> CClient failing_client]"

text \<open>An emit function that accepts every event but \<^verbatim>\<open>task_start\<close>, on a
  session whose prompt times out.\<close>

definition unreliable_emit :: emit_fn where
  "unreliable_emit ev payload =
     (if ev = ''task_start'' then Inl (OtherError ''connection lost'') else Inr VNone)"

definition unreliable_emit_session :: session where
  "unreliable_emit_session = [''emit'' \<mapsto> CEmit unreliable_emit, ''ask_user'' \<mapsto> CAsk silent_ask]"

definition no_emit_session :: session where
  "no_emit_session = [''ask_user'' \<mapsto> CAsk answering_ask, ''client'' \<mapsto> CClient working_client]"

definition text_spec :: AskSpec where
  "text_spec = \<lparr>ask_type = ''text'', timeout = 60,
                 to_dict = VDict [(''type'', VStr ''text''), (''timeout'', VInt 60)]\<rparr>"

definition prompt :: pyval where
  "prompt = VDict [(''author'', VStr ''Chatbot''), (''content'', VStr ''Your name?'')]"

text \<open>
  Frames: one without the marker, two that bind it to a false value, and the frames of two
  nested requests with their emitters.
\<close>

text \<open>The frame of \<^verbatim>\<open>get_emitter\<close> itself, first in every stack it inspects:
  its only local when the stack is read is \<^verbatim>\<open>attr\<close>.\<close>

definition get_emitter_frame :: frame where
  "get_emitter_frame = \<lparr>f_locals = [''attr'' \<mapsto> VStr attr]\<rparr>"

definition unmarked_frame :: frame where
  "unmarked_frame = \<lparr>f_locals = [''self'' \<mapsto> VObj 1]\<rparr>"

definition none_frame :: frame where
  "none_frame = \<lparr>f_locals = [attr \<mapsto> VNone]\<rparr>"

definition zero_frame :: frame where
  "zero_frame = \<lparr>f_locals = [attr \<mapsto> VInt 0]\<rparr>"

definition inner_request_frame :: frame where
  "inner_request_frame = \<lparr>f_locals = [attr \<mapsto> VObj 7]\<rparr>"

definition outer_request_frame :: frame where
  "outer_request_frame = \<lparr>f_locals = [attr \<mapsto> VObj 9]\<rparr>"

text \<open>
  Agents: an entry point that returns what it received, on agents with declared keys, with
  no key attributes, and with empty key lists.
\<close>

definition echo_entry :: "pyval \<Rightarrow> handler list \<Rightarrow> error + pyval" where
  "echo_entry arg callbacks = Inr (VDict [(''received'', arg)])"

definition query_agent :: agent where
  "query_agent = \<lparr>input_keys = Some [''query''], output_keys = Some [''result'', ''source''],
                    acall = echo_entry, sync_call = echo_entry\<rparr>"

definition plain_agent :: agent where
  "plain_agent = \<lparr>input_keys = None, output_keys = None,
                    acall = echo_entry, sync_call = echo_entry\<rparr>"

definition no_input_keys_agent :: agent where
  "no_input_keys_agent = \<lparr>input_keys = Some [], output_keys = Some [''result''],
                    acall = echo_entry, sync_call = echo_entry\<rparr>"

definition no_output_keys_agent :: agent where
  "no_output_keys_agent = \<lparr>input_keys = None, output_keys = Some [],
                    acall = echo_entry, sync_call = echo_entry\<rparr>"

section \<open>Session properties and notifications\<close>

lemma emit_absent:
  "''emit'' \<notin> dom s \<Longrightarrow> call_emit (init s) ev payload tr = (Inl (missing_property ''emit''), tr)"
  by (simp add: call_emit_def emit_def get_session_property_def init_def domIff)

text \<open>
  C6. On a session mapping without the key \<^verbatim>\<open>emit\<close>, each of the ten notification
  methods raises the missing-property ValueError at once: the trace is unchanged, so
  nothing was sent and nothing was tried again.
\<close>

theorem notification_without_emit:
  assumes "''emit'' \<notin> dom s"
  shows "send_message (init s) msg_dict tr = (Inl (missing_property ''emit''), tr) \<and>
         update_message (init s) msg_dict tr = (Inl (missing_property ''emit''), tr) \<and>
         delete_message (init s) msg_dict tr = (Inl (missing_property ''emit''), tr) \<and>
         send_ask_timeout (init s) tr = (Inl (missing_property ''emit''), tr) \<and>
         clear_ask (init s) tr = (Inl (missing_property ''emit''), tr) \<and>
         update_token_count (init s) count tr = (Inl (missing_property ''emit''), tr) \<and>
         task_start (init s) tr = (Inl (missing_property ''emit''), tr) \<and>
         task_end (init s) tr = (Inl (missing_property ''emit''), tr) \<and>
         stream_start (init s) msg_dict tr = (Inl (missing_property ''emit''), tr) \<and>
         send_token (init s) ident token tr = (Inl (missing_property ''emit''), tr)"
  using assms
  by (simp add: emit_absent send_message_def update_message_def delete_message_def
      send_ask_timeout_def clear_ask_def update_token_count_def task_start_def task_end_def
      stream_start_def send_token_def)

theorem notification_without_emit_witness:
  "''emit'' \<notin> dom no_emit_session \<and>
   send_message (init no_emit_session) (VDict [(''content'', VStr ''hi'')]) [] = (Inl (missing_property ''emit''), []) \<and>
   task_start (init no_emit_session) [] = (Inl (missing_property ''emit''), []) \<and>
   send_token (init no_emit_session) (VInt 1) ''tok'' [] = (Inl (missing_property ''emit''), [])"
  using notification_without_emit [of no_emit_session "VDict [(''content'', VStr ''hi'')]" "[]" 0 "VInt 1" "''tok''"]
  by (simp add: no_emit_session_def)

text \<open>
  C7. The accessors \<^verbatim>\<open>emit\<close> and \<^verbatim>\<open>ask_user\<close> return the stored
  capability when the session has the key and raise the missing-property ValueError when
  it has not; \<^verbatim>\<open>client\<close> returns the stored capability or, when the key is
  absent, \<^verbatim>\<open>None\<close> without an error.
\<close>

theorem property_accessors:
  "(\<forall>c. s ''emit'' = Some c \<longrightarrow> emit (init s) = Inr c) \<and>
   (s ''emit'' = None \<longrightarrow> emit (init s) = Inl (missing_property ''emit'')) \<and>
   (\<forall>c. s ''ask_user'' = Some c \<longrightarrow> ask_user (init s) = Inr c) \<and>
   (s ''ask_user'' = None \<longrightarrow> ask_user (init s) = Inl (missing_property ''ask_user'')) \<and>
   (\<forall>c. s ''client'' = Some c \<longrightarrow> client (init s) = Inr c) \<and>
   (s ''client'' = None \<longrightarrow> client (init s) = Inr (CValue VNone))"
  by (simp add: emit_def ask_user_def client_def get_session_property_def init_def)

theorem property_accessors_witness:
  "emit (init full_session) = Inr (CEmit accepting_emit) \<and>
   ask_user (init full_session) = Inr (CAsk answering_ask) \<and>
   client (init full_session) = Inr (CClient working_client) \<and>
   emit (init Map.empty) = Inl (missing_property ''emit'') \<and>
   ask_user (init Map.empty) = Inl (missing_property ''ask_user'') \<and>
   client (init Map.empty) = Inr (CValue VNone)"
  using property_accessors [of full_session] property_accessors [of Map.empty]
  by (simp add: full_session_def)

section \<open>The prompt exchange\<close>

lemma call_emit_present:
  "s ''emit'' = Some (CEmit f) \<Longrightarrow>
   call_emit (init s) ev payload tr = (f ev payload, tr @ [Emit ev payload])"
  by (simp add: call_emit_def emit_def get_session_property_def init_def)

lemma call_ask_user_present:
  "s ''ask_user'' = Some (CAsk a) \<Longrightarrow>
   call_ask_user (init s) payload t tr = (a payload t, tr @ [Ask payload t])"
  by (simp add: call_ask_user_def ask_user_def get_session_property_def init_def)

lemma count_event_append:
  "count_event name (tr @ tr') = count_event name tr + count_event name tr'"
  by (simp add: count_event_def)

lemma count_event_simps [simp]:
  "count_event name [] = 0"
  "count_event name (x # tr) = (if is_emit name x then 1 else 0) + count_event name tr"
  by (simp_all add: count_event_def)

lemma count_call_ask_user:
  "count_event name (snd (call_ask_user self payload t tr)) = count_event name tr"
  by (simp add: call_ask_user_def count_event_append split: sum.splits capability.splits)

lemma count_create_message:
  "count_event name (snd (create_message c m tr)) = count_event name tr"
  by (simp add: create_message_def count_event_append split: capability.splits)

lemma count_store_response:
  "count_event name (snd (store_response self spec res tr)) = count_event name tr"
  by (simp add: store_response_def count_create_message split: sum.splits)

lemma fst_create_message: "fst (create_message c m tr) = fst (create_message c m tr')"
  by (simp add: create_message_def split: capability.splits)

lemma fst_store_response:
  "fst (store_response self spec res tr) = fst (store_response self spec res tr')"
  by (simp add: store_response_def fst_create_message split: sum.splits)

lemma count_call_ask_userD:
  "call_ask_user self payload t tr = (r, tr') \<Longrightarrow> count_event name tr' = count_event name tr"
  using count_call_ask_user [of name self payload t tr] by simp

lemma count_store_responseD:
  "store_response self spec res tr = (r, tr') \<Longrightarrow> count_event name tr' = count_event name tr"
  using count_store_response [of name self spec res tr] by simp

text \<open>
  How often an event of a given name is emitted by the body of the \<^verbatim>\<open>try\<close>, and
  by the whole call, on a session with an emit function.
\<close>

lemma count_try_block:
  assumes "s ''emit'' = Some (CEmit f)"
  shows "count_event name (snd (try_block (init s) msg_dict spec tr)) =
         count_event name tr +
         (case fst (call_ask_user (init s) (VDict [(''msg'', msg_dict), (''spec'', to_dict spec)])
                      (timeout spec) tr) of
            Inl e \<Rightarrow> 0
          | Inr res \<Rightarrow>
              (if name = ''task_end'' then 1 else 0) +
              (case f ''task_end'' (VDict []) of
                 Inl e \<Rightarrow> 0
               | Inr u \<Rightarrow>
                   (case fst (store_response (init s) spec res tr) of
                      Inl e \<Rightarrow> 0
                    | Inr u' \<Rightarrow> if name = ''clear_ask'' then 1 else 0)))"
proof (cases "call_ask_user (init s) (VDict [(''msg'', msg_dict), (''spec'', to_dict spec)]) (timeout spec) tr")
  case (Pair r tr1)
  note c1 = count_call_ask_userD [OF Pair, of name]
  show ?thesis
  proof (cases r)
    case (Inl e)
    with Pair c1 show ?thesis by (simp add: try_block_def)
  next
    case (Inr res)
    show ?thesis
    proof (cases "f ''task_end'' (VDict [])")
      case (Inl e)
      with Pair Inr c1 assms show ?thesis
        by (simp add: try_block_def task_end_def call_emit_present count_event_append)
    next
      case u: (Inr u)
      obtain r3 tr3 where st: "store_response (init s) spec res (tr1 @ [Emit ''task_end'' (VDict [])]) = (r3, tr3)"
        by (cases "store_response (init s) spec res (tr1 @ [Emit ''task_end'' (VDict [])])")
      have c3: "count_event name tr3 = count_event name (tr1 @ [Emit ''task_end'' (VDict [])])"
        using count_store_responseD [OF st] .
      have f3: "fst (store_response (init s) spec res tr) = r3"
        using fst_store_response [of "init s" spec res tr "tr1 @ [Emit ''task_end'' (VDict [])]"] st by simp
      show ?thesis
      proof (cases r3)
        case (Inl e)
        with Pair Inr u st c1 c3 f3 assms show ?thesis
          by (simp add: try_block_def task_end_def call_emit_present count_event_append)
      next
        case r3: (Inr u')
        with Pair Inr u st c1 c3 f3 assms show ?thesis
          by (cases "f ''clear_ask'' (VDict [])")
             (simp_all add: try_block_def task_end_def clear_ask_def call_emit_present count_event_append)
      qed
    qed
  qed
qed

lemma count_send_ask_user:
  assumes "s ''emit'' = Some (CEmit f)"
  shows "count_event name (snd (send_ask_user (init s) msg_dict spec raise_on_timeout tr)) =
         count_event name (snd (try_block (init s) msg_dict spec tr)) +
         (if fst (try_block (init s) msg_dict spec tr) = Inl TimeoutError \<and> name = ''ask_timeout''
          then 1 else 0) +
         (if name = ''task_start'' then 1 else 0)"
proof (cases "try_block (init s) msg_dict spec tr")
  case (Pair r tr1)
  show ?thesis
  proof (cases "r = Inl TimeoutError")
    case True
    with Pair assms show ?thesis
      by (simp add: send_ask_user_def except_timeout_def send_ask_timeout_def task_start_def
          call_emit_present count_event_append split: sum.splits)
  next
    case False
    then have "except_timeout (init s) raise_on_timeout (r, tr1) = (r, tr1)"
      by (simp add: except_timeout_def split: sum.splits error.splits)
    with Pair False assms show ?thesis
      by (simp add: send_ask_user_def task_start_def call_emit_present count_event_append
          split: sum.splits)
  qed
qed

lemmas run_simps = send_ask_user_def except_timeout_def try_block_def store_response_def
  create_message_def call_ask_user_def call_emit_def task_start_def task_end_def clear_ask_def
  send_ask_timeout_def emit_def ask_user_def client_def get_session_property_def init_def
  text_spec_def prompt_def accepting_emit_def answering_ask_def silent_ask_def
  working_client_def failing_client_def

text \<open>
  C1, as the code has it. On a session with an emit function, every call of
  \<^verbatim>\<open>send_ask_user\<close> emits \<^verbatim>\<open>task_start\<close> exactly once, whatever the
  outcome: a response, a timeout, or an error such as a failing \<^verbatim>\<open>create_message\<close>.
  \<^verbatim>\<open>task_end\<close> is emitted exactly once when \<^verbatim>\<open>ask_user\<close> returns, and
  not at all when \<^verbatim>\<open>ask_user\<close> times out or fails, since the call that would emit
  it comes after the prompt in the \<^verbatim>\<open>try\<close> body.
\<close>

theorem task_progress_signalling:
  assumes "s ''emit'' = Some (CEmit f)"
  shows "count_event ''task_start'' (snd (send_ask_user (init s) msg_dict spec raise_on_timeout tr)) =
           count_event ''task_start'' tr + 1 \<and>
         count_event ''task_end'' (snd (send_ask_user (init s) msg_dict spec raise_on_timeout tr)) =
           count_event ''task_end'' tr +
           (case fst (call_ask_user (init s) (VDict [(''msg'', msg_dict), (''spec'', to_dict spec)])
                        (timeout spec) tr) of
              Inl e \<Rightarrow> 0
            | Inr res \<Rightarrow> 1)"
  using assms
  by (simp add: count_send_ask_user [where f = f] count_try_block [where f = f] split: sum.splits)

theorem task_progress_signalling_witness:
  "failing_store_session ''emit'' = Some (CEmit accepting_emit) \<and>
   fst (send_ask_user (init failing_store_session) prompt text_spec False []) =
     Inl (OtherError ''storage unavailable'') \<and>
   count_event ''task_start'' (snd (send_ask_user (init failing_store_session) prompt text_spec False [])) = 1 \<and>
   count_event ''task_end'' (snd (send_ask_user (init failing_store_session) prompt text_spec False [])) = 1 \<and>
   timeout_session ''emit'' = Some (CEmit accepting_emit) \<and>
   count_event ''task_start'' (snd (send_ask_user (init timeout_session) prompt text_spec True [])) = 1 \<and>
   count_event ''task_end'' (snd (send_ask_user (init timeout_session) prompt text_spec True [])) = 0"
proof -
  have e1: "failing_store_session ''emit'' = Some (CEmit accepting_emit)"
    by (simp add: failing_store_session_def)
  have e2: "timeout_session ''emit'' = Some (CEmit accepting_emit)"
    by (simp add: timeout_session_def)
  have r: "fst (send_ask_user (init failing_store_session) prompt text_spec False []) =
     Inl (OtherError ''storage unavailable'')"
    by (simp add: run_simps failing_store_session_def)
  have a1: "fst (call_ask_user (init failing_store_session)
              (VDict [(''msg'', prompt), (''spec'', to_dict text_spec)]) (timeout text_spec) []) =
            Inr (VDict [(''author'', VStr ''User''), (''content'', VStr ''hello'')])"
    by (simp add: run_simps failing_store_session_def)
  have a2: "fst (call_ask_user (init timeout_session)
              (VDict [(''msg'', prompt), (''spec'', to_dict text_spec)]) (timeout text_spec) []) =
            Inl TimeoutError"
    by (simp add: run_simps timeout_session_def)
  show ?thesis
    using task_progress_signalling [where s = failing_store_session and f = accepting_emit
        and msg_dict = prompt and spec = text_spec and raise_on_timeout = False and tr = "[]"]
      task_progress_signalling [where s = timeout_session and f = accepting_emit
        and msg_dict = prompt and spec = text_spec and raise_on_timeout = True and tr = "[]"] e1 e2 r a1 a2
    by simp
qed

text \<open>
  C1 as stated fails on a timeout: the prompt is sent, \<^verbatim>\<open>ask_timeout\<close> and
  \<^verbatim>\<open>task_start\<close> are emitted, \<^verbatim>\<open>task_end\<close> never is.
\<close>

theorem task_end_skipped_on_timeout:
  "send_ask_user (init timeout_session) prompt text_spec False [] =
     (Inr VNone,
      [Ask (VDict [(''msg'', prompt), (''spec'', to_dict text_spec)]) 60,
       Emit ''ask_timeout'' (VDict []), Emit ''task_start'' (VDict [])]) \<and>
   count_event ''task_end'' (snd (send_ask_user (init timeout_session) prompt text_spec False [])) = 0"
  by (simp add: run_simps timeout_session_def)

text \<open>
  C2, as the code has it. When the session's \<^verbatim>\<open>ask_user\<close> raises the timeout on a
  session that has an emit function, and that function accepts the two events of that path,
  \<^verbatim>\<open>ask_timeout\<close> and \<^verbatim>\<open>task_start\<close>, then \<^verbatim>\<open>ask_timeout\<close>
  is emitted exactly once; the call returns \<^verbatim>\<open>None\<close> when
  \<^verbatim>\<open>raise_on_timeout\<close> is false and raises the timeout error when it is true.
\<close>

theorem ask_timeout_notification:
  assumes "s ''emit'' = Some (CEmit f)" and "s ''ask_user'' = Some (CAsk a)"
    and "a (VDict [(''msg'', msg_dict), (''spec'', to_dict spec)]) (timeout spec) = Inl TimeoutError"
    and "f ''ask_timeout'' (VDict []) = Inr u" and "f ''task_start'' (VDict []) = Inr u'"
  shows "count_event ''ask_timeout'' (snd (send_ask_user (init s) msg_dict spec raise_on_timeout tr)) =
           count_event ''ask_timeout'' tr + 1 \<and>
         fst (send_ask_user (init s) msg_dict spec raise_on_timeout tr) =
           (if raise_on_timeout then Inl TimeoutError else Inr VNone)"
  using assms
  by (simp add: send_ask_user_def except_timeout_def try_block_def send_ask_timeout_def
      task_start_def call_emit_present call_ask_user_present count_event_append)

theorem ask_timeout_notification_witness:
  "timeout_session ''emit'' = Some (CEmit accepting_emit) \<and>
   timeout_session ''ask_user'' = Some (CAsk silent_ask) \<and>
   silent_ask (VDict [(''msg'', prompt), (''spec'', to_dict text_spec)]) (timeout text_spec) = Inl TimeoutError \<and>
   accepting_emit ''ask_timeout'' (VDict []) = Inr VNone \<and>
   accepting_emit ''task_start'' (VDict []) = Inr VNone \<and>
   count_event ''ask_timeout'' (snd (send_ask_user (init timeout_session) prompt text_spec False [])) = 1 \<and>
   fst (send_ask_user (init timeout_session) prompt text_spec False []) = Inr VNone \<and>
   count_event ''ask_timeout'' (snd (send_ask_user (init timeout_session) prompt text_spec True [])) = 1 \<and>
   fst (send_ask_user (init timeout_session) prompt text_spec True []) = Inl TimeoutError"
proof -
  have h1: "timeout_session ''emit'' = Some (CEmit accepting_emit)"
    and h2: "timeout_session ''ask_user'' = Some (CAsk silent_ask)"
    by (simp_all add: timeout_session_def)
  have h3: "silent_ask (VDict [(''msg'', prompt), (''spec'', to_dict text_spec)]) (timeout text_spec) = Inl TimeoutError"
    by (simp add: silent_ask_def)
  have h4: "accepting_emit ''ask_timeout'' (VDict []) = Inr VNone"
    and h5: "accepting_emit ''task_start'' (VDict []) = Inr VNone"
    by (simp_all add: accepting_emit_def)
  show ?thesis
    using ask_timeout_notification [where s = timeout_session and f = accepting_emit and a = silent_ask
        and msg_dict = prompt and spec = text_spec and raise_on_timeout = False and tr = "[]"]
      ask_timeout_notification [where s = timeout_session and f = accepting_emit and a = silent_ask
        and msg_dict = prompt and spec = text_spec and raise_on_timeout = True and tr = "[]"] h1 h2 h3 h4 h5
    by simp
qed

text \<open>
  C2 as stated fails when the emit function raises on \<^verbatim>\<open>task_start\<close>: the
  error raised in the \<^verbatim>\<open>finally\<close> block replaces the outcome, so the caller
  gets neither the timeout error nor \<^verbatim>\<open>None\<close>.
\<close>

theorem timeout_outcome_replaced_by_emit_error:
  "send_ask_user (init unreliable_emit_session) prompt text_spec True [] =
     (Inl (OtherError ''connection lost''),
      [Ask (VDict [(''msg'', prompt), (''spec'', to_dict text_spec)]) 60,
       Emit ''ask_timeout'' (VDict []), Emit ''task_start'' (VDict [])]) \<and>
   fst (send_ask_user (init unreliable_emit_session) prompt text_spec True []) \<noteq> Inl TimeoutError \<and>
   fst (send_ask_user (init unreliable_emit_session) prompt text_spec False []) =
     Inl (OtherError ''connection lost'') \<and>
   fst (send_ask_user (init unreliable_emit_session) prompt text_spec False []) \<noteq> Inr VNone"
  by (simp add: run_simps unreliable_emit_session_def unreliable_emit_def)

text \<open>
  C3. When \<^verbatim>\<open>ask_user\<close> returns a response and nothing else raises (the emit
  function accepts \<^verbatim>\<open>task_end\<close>, \<^verbatim>\<open>clear_ask\<close> and
  \<^verbatim>\<open>task_start\<close>, and storing the response does not fail; the outcome of the
  storing step does not depend on the trace it starts from), the call returns exactly that
  response and \<^verbatim>\<open>clear_ask\<close> is emitted exactly once.
\<close>

theorem response_returned:
  assumes "s ''emit'' = Some (CEmit f)" and "s ''ask_user'' = Some (CAsk a)"
    and "a (VDict [(''msg'', msg_dict), (''spec'', to_dict spec)]) (timeout spec) = Inr res"
    and "f ''task_end'' (VDict []) = Inr u1" and "f ''clear_ask'' (VDict []) = Inr u2"
    and "f ''task_start'' (VDict []) = Inr u3"
    and "fst (store_response (init s) spec res tr) = Inr u4"
  shows "fst (send_ask_user (init s) msg_dict spec raise_on_timeout tr) = Inr res \<and>
         count_event ''clear_ask'' (snd (send_ask_user (init s) msg_dict spec raise_on_timeout tr)) =
           count_event ''clear_ask'' tr + 1"
proof -
  let ?tr2 = "tr @ [Ask (VDict [(''msg'', msg_dict), (''spec'', to_dict spec)]) (timeout spec),
                    Emit ''task_end'' (VDict [])]"
  obtain r3 tr3 where st: "store_response (init s) spec res ?tr2 = (r3, tr3)"
    by (cases "store_response (init s) spec res ?tr2")
  have "r3 = Inr u4"
    using fst_store_response [of "init s" spec res tr ?tr2] st assms(7) by simp
  moreover have "count_event ''clear_ask'' tr3 = count_event ''clear_ask'' tr"
    using count_store_responseD [OF st, of "''clear_ask''"] by (simp add: count_event_append)
  ultimately show ?thesis
    using assms st
    by (simp add: send_ask_user_def except_timeout_def try_block_def task_end_def clear_ask_def
        task_start_def call_emit_present call_ask_user_present count_event_append)
qed

theorem response_returned_witness:
  "full_session ''emit'' = Some (CEmit accepting_emit) \<and>
   full_session ''ask_user'' = Some (CAsk answering_ask) \<and>
   answering_ask (VDict [(''msg'', prompt), (''spec'', to_dict text_spec)]) (timeout text_spec) =
     Inr (VDict [(''author'', VStr ''User''), (''content'', VStr ''hello'')]) \<and>
   accepting_emit ''task_end'' (VDict []) = Inr VNone \<and>
   accepting_emit ''clear_ask'' (VDict []) = Inr VNone \<and>
   accepting_emit ''task_start'' (VDict []) = Inr VNone \<and>
   fst (store_response (init full_session) text_spec
          (VDict [(''author'', VStr ''User''), (''content'', VStr ''hello'')]) []) = Inr VNone \<and>
   fst (send_ask_user (init full_session) prompt text_spec False []) =
     Inr (VDict [(''author'', VStr ''User''), (''content'', VStr ''hello'')]) \<and>
   count_event ''clear_ask'' (snd (send_ask_user (init full_session) prompt text_spec False [])) = 1"
proof -
  let ?res = "VDict [(''author'', VStr ''User''), (''content'', VStr ''hello'')]"
  have h1: "full_session ''emit'' = Some (CEmit accepting_emit)"
    and h2: "full_session ''ask_user'' = Some (CAsk answering_ask)"
    by (simp_all add: full_session_def)
  have h3: "answering_ask (VDict [(''msg'', prompt), (''spec'', to_dict text_spec)]) (timeout text_spec) = Inr ?res"
    by (simp add: answering_ask_def)
  have h4: "accepting_emit ''task_end'' (VDict []) = Inr VNone"
    and h5: "accepting_emit ''clear_ask'' (VDict []) = Inr VNone"
    and h6: "accepting_emit ''task_start'' (VDict []) = Inr VNone"
    by (simp_all add: accepting_emit_def)
  have h7: "fst (store_response (init full_session) text_spec ?res []) = Inr VNone"
    by (simp add: run_simps full_session_def)
  show ?thesis
    using response_returned [where s = full_session and f = accepting_emit and a = answering_ask
        and msg_dict = prompt and spec = text_spec and raise_on_timeout = False and tr = "[]"
        and res = ?res] h1 h2 h3 h4 h5 h6 h7
    by simp
qed

text \<open>
  C4, as the code has it. On a session with an emit function, \<^verbatim>\<open>clear_ask\<close> is
  emitted exactly once when \<^verbatim>\<open>ask_user\<close> returns and neither the
  \<^verbatim>\<open>task_end\<close> emit nor the storing of the response raises. It is skipped on a
  timeout and equally on every other error raised before it: a failing
  \<^verbatim>\<open>ask_user\<close>, a failing \<^verbatim>\<open>task_end\<close>, a failure while persisting the
  response.
\<close>

theorem clear_ask_emission:
  assumes "s ''emit'' = Some (CEmit f)"
  shows "count_event ''clear_ask'' (snd (send_ask_user (init s) msg_dict spec raise_on_timeout tr)) =
           count_event ''clear_ask'' tr +
           (case fst (call_ask_user (init s) (VDict [(''msg'', msg_dict), (''spec'', to_dict spec)])
                        (timeout spec) tr) of
              Inl e \<Rightarrow> 0
            | Inr res \<Rightarrow>
                (case f ''task_end'' (VDict []) of
                   Inl e \<Rightarrow> 0
                 | Inr u \<Rightarrow>
                     (case fst (store_response (init s) spec res tr) of
                        Inl e \<Rightarrow> 0
                      | Inr u' \<Rightarrow> 1)))"
  using assms
  by (simp add: count_send_ask_user [where f = f] count_try_block [where f = f] split: sum.splits)

theorem clear_ask_emission_witness:
  "full_session ''emit'' = Some (CEmit accepting_emit) \<and>
   count_event ''clear_ask'' (snd (send_ask_user (init full_session) prompt text_spec False [])) = 1 \<and>
   failing_store_session ''emit'' = Some (CEmit accepting_emit) \<and>
   count_event ''clear_ask'' (snd (send_ask_user (init failing_store_session) prompt text_spec False [])) = 0"
proof -
  let ?res = "VDict [(''author'', VStr ''User''), (''content'', VStr ''hello'')]"
  let ?payload = "VDict [(''msg'', prompt), (''spec'', to_dict text_spec)]"
  have e1: "full_session ''emit'' = Some (CEmit accepting_emit)"
    by (simp add: full_session_def)
  have e2: "failing_store_session ''emit'' = Some (CEmit accepting_emit)"
    by (simp add: failing_store_session_def)
  have a1: "fst (call_ask_user (init full_session) ?payload (timeout text_spec) []) = Inr ?res"
    by (simp add: run_simps full_session_def)
  have a2: "fst (call_ask_user (init failing_store_session) ?payload (timeout text_spec) []) = Inr ?res"
    by (simp add: run_simps failing_store_session_def)
  have t: "accepting_emit ''task_end'' (VDict []) = Inr VNone"
    by (simp add: accepting_emit_def)
  have s1: "fst (store_response (init full_session) text_spec ?res []) = Inr VNone"
    by (simp add: run_simps full_session_def)
  have s2: "fst (store_response (init failing_store_session) text_spec ?res []) =
              Inl (OtherError ''storage unavailable'')"
    by (simp add: run_simps failing_store_session_def)
  show ?thesis
    using clear_ask_emission [where s = full_session and f = accepting_emit
        and msg_dict = prompt and spec = text_spec and raise_on_timeout = False and tr = "[]"]
      clear_ask_emission [where s = failing_store_session and f = accepting_emit
        and msg_dict = prompt and spec = text_spec and raise_on_timeout = False and tr = "[]"] e1 e2 a1 a2 t s1 s2
    by simp
qed

text \<open>
  C4 as stated fails when the persistence client fails: the error is not a timeout, it
  leaves the call after \<^verbatim>\<open>task_start\<close>, and \<^verbatim>\<open>clear_ask\<close> was never
  emitted.
\<close>

theorem clear_ask_skipped_on_store_failure:
  "send_ask_user (init failing_store_session) prompt text_spec False [] =
     (Inl (OtherError ''storage unavailable''),
      [Ask (VDict [(''msg'', prompt), (''spec'', to_dict text_spec)]) 60,
       Emit ''task_end'' (VDict []),
       CreateMessage (VDict [(''author'', VStr ''User''), (''authorIsUser'', VBool True),
                             (''content'', VStr ''hello'')]),
       Emit ''task_start'' (VDict [])]) \<and>
   count_event ''clear_ask'' (snd (send_ask_user (init failing_store_session) prompt text_spec False [])) = 0"
  by (simp add: run_simps failing_store_session_def)

section \<open>Current-emitter resolution\<close>

lemma get_emitter_Nil: "get_emitter [] = VNone"
  by (simp add: get_emitter_def candidates_def)

lemma get_emitter_Cons:
  "get_emitter (fr # stack) =
     (if carries_marker fr then dict_get (f_locals fr) attr else get_emitter stack)"
  by (simp add: get_emitter_def candidates_def carries_marker_def)

lemma spec_outermost_first_Nil: "spec_outermost_first [] = VNone"
  by (simp add: spec_outermost_first_def)

lemma spec_outermost_first_Cons:
  "spec_outermost_first (fr # stack) =
     (if carries_marker fr then dict_get (f_locals fr) attr else spec_outermost_first stack)"
  by (simp add: spec_outermost_first_def)

lemma get_emitter_none: "\<forall>fr \<in> set stack. \<not> carries_marker fr \<Longrightarrow> get_emitter stack = VNone"
  by (induction stack) (simp_all add: get_emitter_Nil get_emitter_Cons)

lemma get_emitter_first:
  "i < length stack \<Longrightarrow> carries_marker (stack ! i) \<Longrightarrow> \<forall>j<i. \<not> carries_marker (stack ! j) \<Longrightarrow>
   get_emitter stack = dict_get (f_locals (stack ! i)) attr"
proof (induction stack arbitrary: i)
  case Nil
  then show ?case by simp
next
  case (Cons fr stack)
  show ?case
  proof (cases i)
    case 0
    with Cons.prems show ?thesis by (simp add: get_emitter_Cons)
  next
    case (Suc k)
    from Cons.prems(3) Suc have "\<not> carries_marker fr" by auto
    moreover have "\<forall>j<k. \<not> carries_marker (stack ! j)"
      using Cons.prems(3) Suc by auto
    ultimately show ?thesis
      using Cons.IH [of k] Cons.prems(1,2) Suc by (simp add: get_emitter_Cons)
  qed
qed

lemma get_emitter_spec: "get_emitter stack = spec_outermost_first stack"
  by (induction stack)
     (simp_all add: get_emitter_Nil get_emitter_Cons spec_outermost_first_Nil spec_outermost_first_Cons)

lemma get_emitter_truthy: "get_emitter stack = VNone \<or> truthy (get_emitter stack)"
  by (induction stack) (auto simp: get_emitter_Nil get_emitter_Cons carries_marker_def)

lemma falsy_or_unbound_not_carried:
  "f_locals fr attr = None \<or> (\<exists>v. f_locals fr attr = Some v \<and> \<not> truthy v) \<Longrightarrow>
   \<not> carries_marker fr"
  by (auto simp: carries_marker_def dict_get_def)

lemma get_emitter_drop_frame:
  "\<not> carries_marker fr \<Longrightarrow> get_emitter (pre @ fr # post) = get_emitter (pre @ post)"
  by (induction pre) (simp_all add: get_emitter_Cons)

text \<open>
  C5. On every call stack, \<open>get_emitter\<close> returns \<^verbatim>\<open>None\<close> when no frame
  carries the marker, and otherwise the marker of the nearest frame that carries it: the
  first one in the list, which starts at the running frame. A frame carries the marker
  when its local \<^verbatim>\<open>__chainlit_emitter__\<close> is bound to a true value. The code
  scans from the nearest frame outwards and stops at the first marker; an outermost-first
  scan in which a nearer marker replaces a farther one gives the same result.
\<close>

theorem get_emitter_nearest:
  "((\<forall>fr \<in> set stack. \<not> carries_marker fr) \<longrightarrow> get_emitter stack = VNone) \<and>
   (\<forall>i. i < length stack \<and> carries_marker (stack ! i) \<and> (\<forall>j<i. \<not> carries_marker (stack ! j)) \<longrightarrow>
        get_emitter stack = dict_get (f_locals (stack ! i)) attr) \<and>
   get_emitter stack = spec_outermost_first stack"
  using get_emitter_none [of stack] get_emitter_first [of _ stack] get_emitter_spec [of stack]
  by blast

theorem get_emitter_nearest_witness:
  "get_emitter [unmarked_frame, unmarked_frame] = VNone \<and>
   carries_marker inner_request_frame \<and> \<not> carries_marker unmarked_frame \<and>
   get_emitter [unmarked_frame, inner_request_frame, unmarked_frame, outer_request_frame] = VObj 7 \<and>
   spec_outermost_first [unmarked_frame, inner_request_frame, unmarked_frame, outer_request_frame] = VObj 7"
proof -
  let ?st = "[unmarked_frame, inner_request_frame, unmarked_frame, outer_request_frame]"
  have u: "\<not> carries_marker unmarked_frame"
    by (simp add: carries_marker_def unmarked_frame_def dict_get_def attr_def)
  have c: "carries_marker inner_request_frame"
    by (simp add: carries_marker_def inner_request_frame_def dict_get_def attr_def)
  have m: "dict_get (f_locals inner_request_frame) attr = VObj 7"
    by (simp add: inner_request_frame_def dict_get_def)
  from get_emitter_nearest [of "[unmarked_frame, unmarked_frame]"] u
  have 1: "get_emitter [unmarked_frame, unmarked_frame] = VNone" by simp
  from get_emitter_nearest [of ?st] have
    "Suc 0 < length ?st \<and> carries_marker (?st ! Suc 0) \<and> (\<forall>j<Suc 0. \<not> carries_marker (?st ! j)) \<longrightarrow>
        get_emitter ?st = dict_get (f_locals (?st ! Suc 0)) attr"
    and s: "get_emitter ?st = spec_outermost_first ?st" by blast+
  with u c m have 2: "get_emitter ?st = VObj 7" by simp
  from 1 2 s u c show ?thesis by simp
qed

text \<open>
  C10. A frame that binds the marker to a false value counts as carrying none: removing
  such a frame from the stack does not change the result, and when every nearer frame
  either has no marker or binds it to a false value and a frame further out binds it to a
  true emitter, that emitter is returned. The result is \<^verbatim>\<open>None\<close> or a true
  value, never a false value other than \<^verbatim>\<open>None\<close>.
\<close>

theorem falsy_marker_skipped:
  "(get_emitter stack = VNone \<or> truthy (get_emitter stack)) \<and>
   (\<forall>fr v pre post. stack = pre @ fr # post \<and> f_locals fr attr = Some v \<and> \<not> truthy v \<longrightarrow>
         get_emitter stack = get_emitter (pre @ post)) \<and>
   (\<forall>i e. i < length stack \<and>
           (\<forall>j<i. f_locals (stack ! j) attr = None \<or>
                   (\<exists>v. f_locals (stack ! j) attr = Some v \<and> \<not> truthy v)) \<and>
           f_locals (stack ! i) attr = Some e \<and> truthy e \<longrightarrow>
         get_emitter stack = e)"
proof (intro conjI allI impI)
  show "get_emitter stack = VNone \<or> truthy (get_emitter stack)" by (rule get_emitter_truthy)
next
  fix fr v pre post
  assume a: "stack = pre @ fr # post \<and> f_locals fr attr = Some v \<and> \<not> truthy v"
  then have "\<not> carries_marker fr" using falsy_or_unbound_not_carried [of fr] by blast
  with a show "get_emitter stack = get_emitter (pre @ post)"
    by (simp add: get_emitter_drop_frame)
next
  fix i e
  assume a: "i < length stack \<and>
           (\<forall>j<i. f_locals (stack ! j) attr = None \<or>
                   (\<exists>v. f_locals (stack ! j) attr = Some v \<and> \<not> truthy v)) \<and>
           f_locals (stack ! i) attr = Some e \<and> truthy e"
  then have "carries_marker (stack ! i)" and "dict_get (f_locals (stack ! i)) attr = e"
    by (simp_all add: carries_marker_def dict_get_def)
  moreover from a have "\<forall>j<i. \<not> carries_marker (stack ! j)"
    using falsy_or_unbound_not_carried by blast
  ultimately show "get_emitter stack = e"
    using get_emitter_first [of i stack] a by simp
qed

theorem falsy_marker_skipped_witness:
  "f_locals get_emitter_frame attr = None \<and>
   f_locals none_frame attr = Some VNone \<and> \<not> truthy VNone \<and>
   f_locals zero_frame attr = Some (VInt 0) \<and> \<not> truthy (VInt 0) \<and>
   f_locals inner_request_frame attr = Some (VObj 7) \<and> truthy (VObj 7) \<and>
   get_emitter [get_emitter_frame, none_frame, zero_frame, inner_request_frame, outer_request_frame] = VObj 7 \<and>
   get_emitter [get_emitter_frame, zero_frame, outer_request_frame] =
     get_emitter [get_emitter_frame, outer_request_frame]"
proof -
  let ?st = "[get_emitter_frame, none_frame, zero_frame, inner_request_frame, outer_request_frame]"
  have g: "f_locals get_emitter_frame attr = None"
    by (simp add: get_emitter_frame_def attr_def)
  have n: "f_locals none_frame attr = Some VNone" by (simp add: none_frame_def)
  have z: "f_locals zero_frame attr = Some (VInt 0)" by (simp add: zero_frame_def)
  have r: "f_locals inner_request_frame attr = Some (VObj 7)" by (simp add: inner_request_frame_def)
  have f: "\<forall>j<Suc (Suc (Suc 0)). f_locals (?st ! j) attr = None \<or>
             (\<exists>v. f_locals (?st ! j) attr = Some v \<and> \<not> truthy v)"
    using g n z by (simp add: All_less_Suc)
  from falsy_marker_skipped [of ?st] have
    "Suc (Suc (Suc 0)) < length ?st \<and>
     (\<forall>j<Suc (Suc (Suc 0)). f_locals (?st ! j) attr = None \<or>
             (\<exists>v. f_locals (?st ! j) attr = Some v \<and> \<not> truthy v)) \<and>
     f_locals (?st ! Suc (Suc (Suc 0))) attr = Some (VObj 7) \<and> truthy (VObj 7) \<longrightarrow>
     get_emitter ?st = VObj 7"
    by blast
  with f r have 1: "get_emitter ?st = VObj 7" by simp
  from falsy_marker_skipped [of "[get_emitter_frame, zero_frame, outer_request_frame]"] have
    "[get_emitter_frame, zero_frame, outer_request_frame] = [get_emitter_frame] @ zero_frame # [outer_request_frame] \<and>
     f_locals zero_frame attr = Some (VInt 0) \<and> \<not> truthy (VInt 0) \<longrightarrow>
     get_emitter [get_emitter_frame, zero_frame, outer_request_frame] =
       get_emitter ([get_emitter_frame] @ [outer_request_frame])"
    by blast
  with z have 2: "get_emitter [get_emitter_frame, zero_frame, outer_request_frame] =
     get_emitter [get_emitter_frame, outer_request_frame]" by simp
  from g n z r 1 2 show ?thesis by simp
qed

section \<open>The agent adapter\<close>

lemma invoke_agent_calls:
  "snd (invoke_agent ag arg use_async) =
     [if use_async then Acall arg [AsyncChainlitCallbackHandler]
      else SyncCall arg [ChainlitCallbackHandler]]"
  by (simp add: invoke_agent_def)

lemma run_langchain_agent_calls:
  "snd (run_langchain_agent ag input_str use_async) =
     (case input_keys ag of
        None \<Rightarrow> snd (invoke_agent ag (VStr input_str) use_async)
      | Some [] \<Rightarrow> []
      | Some (k # ks) \<Rightarrow> snd (invoke_agent ag (VDict [(k, VStr input_str)]) use_async))"
  by (simp add: run_langchain_agent_def split: option.splits list.splits sum.splits prod.splits)

text \<open>
  C8, as the code has it. For every agent whose \<^verbatim>\<open>input_keys\<close> attribute is a
  non-empty list or absent, and whose \<^verbatim>\<open>output_keys\<close> attribute is a non-empty
  list or absent: with input keys the agent is invoked once, on the single-entry mapping
  from its first input key to the input string; without the attribute it is invoked once on
  the bare string. The asynchronous entry point gets the asynchronous handler, the
  synchronous one the synchronous handler. When the entry point returns, the result is its
  raw result paired with the first declared output key, or with \<^verbatim>\<open>None\<close> when
  the agent has no \<^verbatim>\<open>output_keys\<close> attribute; when it raises, the error is the
  result.
\<close>

theorem agent_adapter:
  assumes "input_keys ag = Some (k # ks) \<and> arg = VDict [(k, VStr input_str)] \<or>
           input_keys ag = None \<and> arg = VStr input_str"
    and "output_keys ag = Some (out # outs) \<and> output_key = Some out \<or>
         output_keys ag = None \<and> output_key = None"
  shows "snd (run_langchain_agent ag input_str use_async) =
           [if use_async then Acall arg [AsyncChainlitCallbackHandler]
            else SyncCall arg [ChainlitCallbackHandler]] \<and>
         fst (run_langchain_agent ag input_str use_async) =
           (case (if use_async then acall ag arg [AsyncChainlitCallbackHandler]
                  else sync_call ag arg [ChainlitCallbackHandler]) of
              Inl e \<Rightarrow> Inl e
            | Inr raw_res \<Rightarrow> Inr (raw_res, output_key))"
  using assms
  by (auto simp: run_langchain_agent_def invoke_agent_def make_async_def split: sum.splits)

theorem agent_adapter_witness:
  "input_keys query_agent = Some [''query''] \<and> output_keys query_agent = Some [''result'', ''source''] \<and>
   run_langchain_agent query_agent ''hello'' True =
     (Inr (VDict [(''received'', VDict [(''query'', VStr ''hello'')])], Some ''result''),
      [Acall (VDict [(''query'', VStr ''hello'')]) [AsyncChainlitCallbackHandler]]) \<and>
   input_keys plain_agent = None \<and> output_keys plain_agent = None \<and>
   run_langchain_agent plain_agent ''hello'' False =
     (Inr (VDict [(''received'', VStr ''hello'')], None),
      [SyncCall (VStr ''hello'') [ChainlitCallbackHandler]])"
proof -
  have q: "input_keys query_agent = Some [''query'']" "output_keys query_agent = Some [''result'', ''source'']"
    "acall query_agent = echo_entry"
    by (simp_all add: query_agent_def)
  have p: "input_keys plain_agent = None" "output_keys plain_agent = None"
    "sync_call plain_agent = echo_entry"
    by (simp_all add: plain_agent_def)
  show ?thesis
    using agent_adapter [where ag = query_agent and k = "''query''" and ks = "[]"
        and arg = "VDict [(''query'', VStr ''hello'')]" and input_str = "''hello''"
        and out = "''result''" and outs = "[''source'']" and output_key = "Some ''result''"
        and use_async = True]
      agent_adapter [where ag = plain_agent and arg = "VStr ''hello''" and input_str = "''hello''"
        and output_key = None and use_async = False] q p
    by (simp add: echo_entry_def prod_eq_iff)
qed

text \<open>
  C8 as stated fails on an agent that declares an empty key list: no keys are declared,
  yet the bare-string and absent-key paths are not taken and IndexError is raised.
\<close>

theorem empty_key_list_not_fallback:
  "input_keys no_input_keys_agent = Some [] \<and>
   run_langchain_agent no_input_keys_agent ''hello'' False = (Inl IndexError, []) \<and>
   output_keys no_output_keys_agent = Some [] \<and>
   run_langchain_agent no_output_keys_agent ''hello'' False =
     (Inl IndexError, [SyncCall (VStr ''hello'') [ChainlitCallbackHandler]])"
  by (simp add: run_langchain_agent_def invoke_agent_def make_async_def no_input_keys_agent_def
      no_output_keys_agent_def echo_entry_def)

text \<open>
  C9. An \<^verbatim>\<open>input_keys\<close> attribute that is an empty list makes
  \<open>run_langchain_agent\<close> raise IndexError before the agent is invoked; an empty
  \<^verbatim>\<open>output_keys\<close> makes it raise IndexError once the agent has returned, so the
  call never returns a pair. The bare string is passed only when \<^verbatim>\<open>input_keys\<close>
  is absent, and the absent output key is returned only when \<^verbatim>\<open>output_keys\<close> is
  absent.
\<close>

theorem empty_keys_raise:
  "(input_keys ag = Some [] \<longrightarrow>
      run_langchain_agent ag input_str use_async = (Inl IndexError, [])) \<and>
   (output_keys ag = Some [] \<longrightarrow>
      (\<forall>raw_res output_key. fst (run_langchain_agent ag input_str use_async) \<noteq> Inr (raw_res, output_key))) \<and>
   (\<forall>raw_res. input_keys ag = None \<and> output_keys ag = Some [] \<and>
      (if use_async then acall ag (VStr input_str) [AsyncChainlitCallbackHandler]
       else sync_call ag (VStr input_str) [ChainlitCallbackHandler]) = Inr raw_res \<longrightarrow>
      fst (run_langchain_agent ag input_str use_async) = Inl IndexError) \<and>
   (\<forall>callbacks. snd (run_langchain_agent ag input_str use_async) = [Acall (VStr input_str) callbacks] \<or>
        snd (run_langchain_agent ag input_str use_async) = [SyncCall (VStr input_str) callbacks] \<longrightarrow>
      input_keys ag = None) \<and>
   (\<forall>raw_res. fst (run_langchain_agent ag input_str use_async) = Inr (raw_res, None) \<longrightarrow>
      output_keys ag = None)"
proof (intro conjI impI allI)
  assume "input_keys ag = Some []"
  then show "run_langchain_agent ag input_str use_async = (Inl IndexError, [])"
    by (simp add: run_langchain_agent_def)
next
  fix raw_res output_key
  assume "output_keys ag = Some []"
  then show "fst (run_langchain_agent ag input_str use_async) \<noteq> Inr (raw_res, output_key)"
    by (simp add: run_langchain_agent_def split: sum.splits prod.splits)
next
  fix raw_res
  assume "input_keys ag = None \<and> output_keys ag = Some [] \<and>
      (if use_async then acall ag (VStr input_str) [AsyncChainlitCallbackHandler]
       else sync_call ag (VStr input_str) [ChainlitCallbackHandler]) = Inr raw_res"
  then show "fst (run_langchain_agent ag input_str use_async) = Inl IndexError"
    by (auto simp: run_langchain_agent_def invoke_agent_def make_async_def split: if_splits)
next
  fix callbacks
  assume "snd (run_langchain_agent ag input_str use_async) = [Acall (VStr input_str) callbacks] \<or>
        snd (run_langchain_agent ag input_str use_async) = [SyncCall (VStr input_str) callbacks]"
  then show "input_keys ag = None"
    by (auto simp: run_langchain_agent_calls invoke_agent_calls
        split: option.splits list.splits if_splits)
next
  fix raw_res
  assume "fst (run_langchain_agent ag input_str use_async) = Inr (raw_res, None)"
  then show "output_keys ag = None"
    by (cases "output_keys ag"; cases "the (output_keys ag)")
       (auto simp: run_langchain_agent_def split: sum.splits prod.splits)
qed

theorem empty_keys_raise_witness:
  "input_keys no_input_keys_agent = Some [] \<and>
   run_langchain_agent no_input_keys_agent ''hello'' True = (Inl IndexError, []) \<and>
   input_keys no_output_keys_agent = None \<and> output_keys no_output_keys_agent = Some [] \<and>
   acall no_output_keys_agent (VStr ''hello'') [AsyncChainlitCallbackHandler] =
     Inr (VDict [(''received'', VStr ''hello'')]) \<and>
   fst (run_langchain_agent no_output_keys_agent ''hello'' True) = Inl IndexError"
proof -
  have n: "input_keys no_input_keys_agent = Some []"
    by (simp add: no_input_keys_agent_def)
  have m: "input_keys no_output_keys_agent = None" "output_keys no_output_keys_agent = Some []"
    "acall no_output_keys_agent (VStr ''hello'') [AsyncChainlitCallbackHandler] =
     Inr (VDict [(''received'', VStr ''hello'')])"
    by (simp_all add: no_output_keys_agent_def echo_entry_def)
  from empty_keys_raise [of no_input_keys_agent "''hello''" True] n
  have 1: "run_langchain_agent no_input_keys_agent ''hello'' True = (Inl IndexError, [])"
    by blast
  from empty_keys_raise [of no_output_keys_agent "''hello''" True] have
    "input_keys no_output_keys_agent = None \<and> output_keys no_output_keys_agent = Some [] \<and>
      (if True then acall no_output_keys_agent (VStr ''hello'') [AsyncChainlitCallbackHandler]
       else sync_call no_output_keys_agent (VStr ''hello'') [ChainlitCallbackHandler]) =
         Inr (VDict [(''received'', VStr ''hello'')]) \<longrightarrow>
      fst (run_langchain_agent no_output_keys_agent ''hello'' True) = Inl IndexError"
    by blast
  with m have 2: "fst (run_langchain_agent no_output_keys_agent ''hello'' True) = Inl IndexError"
    by simp
  from n m 1 2 show ?thesis by simp
qed

end
